theory Spec2Isabelle
  imports Complex_Main "HOL-Library.AList"
begin

section \<open>Python values\<close>

text \<open>
  The handlers of \<^verbatim>\<open>app.py\<close> work on the values that \<^verbatim>\<open>request.get_json()\<close> returns:
  \<^verbatim>\<open>None\<close>, booleans, numbers, strings, lists and dicts. A dict is an association list
  read with \<open>map_of\<close> and written with \<open>AList.update\<close>, which keeps the position of an
  existing key and appends a new one, as a Python dict does. Numbers are only carried
  around, never computed on; a float is kept as the rational it denotes.
\<close>

datatype json =
    JNull
  | JBool bool
  | JInt int
  | JFloat rat
  | JStr string
  | JArr "json list"
  | JObj "(string \<times> json) list"

type_synonym pydict = "(string \<times> json) list"

text \<open>
  An exception: its class, \<^verbatim>\<open>str(ex)\<close>, and the attribute \<^verbatim>\<open>status_code\<close> when the object has
  one (\<^verbatim>\<open>hasattr(ex, "status_code")\<close>).
\<close>

datatype exn = Exn (exn_class: string) (exn_str: string) (status_code: "int option")

definition quote :: string where
  "quote = [CHR 0x27]"

fun type_name :: "json \<Rightarrow> string" where
  "type_name JNull = ''NoneType''"
| "type_name (JBool _) = ''bool''"
| "type_name (JInt _) = ''int''"
| "type_name (JFloat _) = ''float''"
| "type_name (JStr _) = ''str''"
| "type_name (JArr _) = ''list''"
| "type_name (JObj _) = ''dict''"

definition no_attribute :: "json \<Rightarrow> string \<Rightarrow> exn" where
  "no_attribute v a =
     Exn ''AttributeError''
       (quote @ type_name v @ quote @ '' object has no attribute '' @ quote @ a @ quote) None"

text \<open>\<^verbatim>\<open>v.get(k, dflt)\<close>: only a dict has the method.\<close>

fun py_get :: "json \<Rightarrow> string \<Rightarrow> json \<Rightarrow> exn + json" where
  "py_get (JObj d) k dflt = Inr (case map_of d k of Some v \<Rightarrow> v | None \<Rightarrow> dflt)"
| "py_get v k dflt = Inl (no_attribute v ''get'')"

text \<open>\<^verbatim>\<open>v.insert(0, x)\<close>: only a list has the method.\<close>

fun py_insert0 :: "json \<Rightarrow> json \<Rightarrow> exn + json" where
  "py_insert0 (JArr xs) x = Inr (JArr (x # xs))"
| "py_insert0 v x = Inl (no_attribute v ''insert'')"

text \<open>\<^verbatim>\<open>v[k] = x\<close> with a string key.\<close>

fun py_setitem :: "json \<Rightarrow> string \<Rightarrow> json \<Rightarrow> exn + json" where
  "py_setitem (JObj d) k x = Inr (JObj (AList.update k x d))"
| "py_setitem (JArr xs) k x =
     Inl (Exn ''TypeError'' ''list indices must be integers or slices, not str'' None)"
| "py_setitem v k x =
     Inl (Exn ''TypeError''
       (quote @ type_name v @ quote @ '' object does not support item assignment'') None)"

text \<open>
  \<^verbatim>\<open>for message in v\<close>: a list yields its elements, a dict its keys, a string its
  characters; nothing else can be iterated.
\<close>

fun py_iter :: "json \<Rightarrow> exn + json list" where
  "py_iter (JArr xs) = Inr xs"
| "py_iter (JObj d) = Inr (map (\<lambda>kv. JStr (fst kv)) d)"
| "py_iter (JStr s) = Inr (map (\<lambda>c. JStr [c]) s)"
| "py_iter v =
     Inl (Exn ''TypeError'' (quote @ type_name v @ quote @ '' object is not iterable'') None)"

text \<open>Truth value of an optional string: \<^verbatim>\<open>None\<close> and \<^verbatim>\<open>""\<close> are false.\<close>

fun truthy :: "string option \<Rightarrow> bool" where
  "truthy None = False"
| "truthy (Some s) = (s \<noteq> [])"

section \<open>Configuration and external collaborators\<close>

text \<open>
  \<^verbatim>\<open>backend.settings.app_settings\<close> is read, never written. The values handed on to the
  completion endpoint are opaque; the fields the code inspects are optional strings.
\<close>

record azure_openai_settings =
  system_message :: "string option"
  temperature :: json
  max_tokens :: json
  top_p :: json
  stop_sequence :: json
  stream :: json
  model :: json
  endpoint :: "string option"
  resource :: "string option"
  preview_api_version :: string
  key :: "string option"

record chat_history_settings =
  account :: string
  account_key :: "string option"
  database :: string
  conversations_container :: string
  enable_feedback :: bool

record app_settings =
  azure_openai :: azure_openai_settings
  chat_history :: "chat_history_settings option"

text \<open>An optional string inside an f-string: \<^verbatim>\<open>None\<close> prints as \<^verbatim>\<open>None\<close>.\<close>

fun fmt :: "string option \<Rightarrow> string" where
  "fmt None = ''None''"
| "fmt (Some s) = s"

text \<open>
  The raw response of the completion endpoint: \<^verbatim>\<open>parse()\<close> gives the completion or
  raises, \<^verbatim>\<open>headers.get(name)\<close> gives a header or \<^verbatim>\<open>None\<close>.
\<close>

record raw_response =
  parse :: "exn + json"
  headers_get :: "string \<Rightarrow> string option"

text \<open>
  The OpenAI SDK: the constructor \<^verbatim>\<open>AsyncAzureOpenAI(api_version, api_key, azure_endpoint)\<close>
  and \<^verbatim>\<open>client.chat.completions.with_raw_response.create(**model_args)\<close>. Either may raise.
\<close>

record 'c openai_sdk =
  AsyncAzureOpenAI :: "string \<Rightarrow> string option \<Rightarrow> string \<Rightarrow> exn + 'c"
  create :: "'c \<Rightarrow> pydict \<Rightarrow> exn + raw_response"

section \<open>Prompt table\<close>

definition SYSTEM_PROMPTS :: "(string \<times> string) list" where
  "SYSTEM_PROMPTS =
     [(''it'', ''You are an expert IT assistant. Provide detailed technical guidance and solutions for IT-related queries.''),
      (''legal'', ''You are a professional legal assistant. Provide accurate, concise, and compliant legal advice.'')]"

section \<open>Building the model arguments and calling the model\<close>

definition prepare_model_args ::
  "app_settings \<Rightarrow> json \<Rightarrow> (string \<times> string) list \<Rightarrow> exn + pydict" where
  "prepare_model_args s request_body request_headers =
     (case py_get request_body ''messages'' (JArr []) of
        Inl e \<Rightarrow> Inl e
      | Inr messages \<Rightarrow>
          Inr [(''messages'', messages),
               (''temperature'', temperature (azure_openai s)),
               (''max_tokens'', max_tokens (azure_openai s)),
               (''top_p'', top_p (azure_openai s)),
               (''stop'', stop_sequence (azure_openai s)),
               (''stream'', stream (azure_openai s)),
               (''model'', model (azure_openai s))])"

definition init_openai_client :: "'c openai_sdk \<Rightarrow> app_settings \<Rightarrow> exn + 'c" where
  "init_openai_client sdk s =
     (let endpoint' =
            (case endpoint (azure_openai s) of
               Some ep \<Rightarrow>
                 if ep \<noteq> [] then ep
                 else ''https://'' @ fmt (resource (azure_openai s)) @ ''.openai.azure.com/''
             | None \<Rightarrow> ''https://'' @ fmt (resource (azure_openai s)) @ ''.openai.azure.com/'')
      in AsyncAzureOpenAI sdk (preview_api_version (azure_openai s)) (key (azure_openai s))
           endpoint')"

text \<open>
  The list comprehension of \<^verbatim>\<open>send_chat_request\<close>: messages are visited in order, and the
  first one without a \<^verbatim>\<open>get\<close> method raises.
\<close>

fun filter_messages :: "json list \<Rightarrow> exn + json list" where
  "filter_messages [] = Inr []"
| "filter_messages (message # rest) =
     (case py_get message ''role'' JNull of
        Inl e \<Rightarrow> Inl e
      | Inr role \<Rightarrow>
          (case filter_messages rest of
             Inl e \<Rightarrow> Inl e
           | Inr out \<Rightarrow> Inr (if role \<noteq> JStr ''tool'' then message # out else out)))"

text \<open>
  \<^verbatim>\<open>send_chat_request\<close> returns the completion and the request id, or raises. Its effects
  are returned with the result: the request body as the assignment to
  \<^verbatim>\<open>request_body["messages"]\<close> leaves it, and the list of argument dicts handed to
  \<^verbatim>\<open>create\<close>.
\<close>

definition send_chat_request ::
  "'c openai_sdk \<Rightarrow> app_settings \<Rightarrow> json \<Rightarrow> (string \<times> string) list
     \<Rightarrow> (exn + json \<times> json) \<times> json \<times> pydict list" where
  "send_chat_request sdk s request_body request_headers =
     (case py_get request_body ''messages'' (JArr []) of
        Inl e \<Rightarrow> (Inl e, request_body, [])
      | Inr msgs \<Rightarrow>
     (case py_iter msgs of
        Inl e \<Rightarrow> (Inl e, request_body, [])
      | Inr ms \<Rightarrow>
     (case filter_messages ms of
        Inl e \<Rightarrow> (Inl e, request_body, [])
      | Inr filtered_messages \<Rightarrow>
     (case py_setitem request_body ''messages'' (JArr filtered_messages) of
        Inl e \<Rightarrow> (Inl e, request_body, [])
      | Inr request_body' \<Rightarrow>
     (case prepare_model_args s request_body' request_headers of
        Inl e \<Rightarrow> (Inl e, request_body', [])
      | Inr model_args \<Rightarrow>
     (case init_openai_client sdk s of
        Inl e \<Rightarrow> (Inl e, request_body', [])
      | Inr azure_openai_client \<Rightarrow>
     (case create sdk azure_openai_client model_args of
        Inl e \<Rightarrow> (Inl e, request_body', [model_args])
      | Inr raw \<Rightarrow>
     (case parse raw of
        Inl e \<Rightarrow> (Inl e, request_body', [model_args])
      | Inr response \<Rightarrow>
          (Inr (response,
                (case headers_get raw ''apim-request-id'' of
                   Some v \<Rightarrow> JStr v | None \<Rightarrow> JNull)),
           request_body', [model_args])))))))))"

section \<open>Formatting the reply\<close>

text \<open>
  Modelled from the spec: \<^verbatim>\<open>format_non_streaming_response\<close> is imported from
  \<^verbatim>\<open>backend.utils\<close>, which is not among the sources. The spec's Response Formatter maps the
  completion, the history metadata and the request identifier to the reply
  \<^verbatim>\<open>{id, model, created, object, choices: [{messages: [...]}], history_metadata}\<close>; an absent
  \<^verbatim>\<open>id\<close> or \<^verbatim>\<open>model\<close> becomes the empty string; a failure to extract the first choice's
  message content is a \<^verbatim>\<open>FormatError\<close>. The spec does not say what an absent \<^verbatim>\<open>created\<close> or
  \<^verbatim>\<open>object\<close> becomes; they are \<^verbatim>\<open>None\<close> here.
\<close>

fun field_or :: "json \<Rightarrow> json \<Rightarrow> string \<Rightarrow> json" where
  "field_or dflt (JObj d) k = (case map_of d k of Some v \<Rightarrow> v | None \<Rightarrow> dflt)"
| "field_or dflt v k = dflt"

fun field :: "json \<Rightarrow> string \<Rightarrow> json option" where
  "field (JObj d) k = map_of d k"
| "field v k = None"

fun first_item :: "json \<Rightarrow> json option" where
  "first_item (JArr (x # xs)) = Some x"
| "first_item v = None"

definition first_choice_content :: "json \<Rightarrow> json option" where
  "first_choice_content response =
     (case field response ''choices'' of
        None \<Rightarrow> None
      | Some choices \<Rightarrow>
     (case first_item choices of
        None \<Rightarrow> None
      | Some choice \<Rightarrow>
     (case field choice ''message'' of
        None \<Rightarrow> None
      | Some message \<Rightarrow> field message ''content'')))"

definition format_non_streaming_response :: "json \<Rightarrow> json \<Rightarrow> json \<Rightarrow> exn + json" where
  "format_non_streaming_response response history_metadata apim_request_id =
     (case first_choice_content response of
        None \<Rightarrow> Inl (Exn ''FormatError'' ''malformed completion response'' None)
      | Some content \<Rightarrow>
          Inr (JObj
            [(''id'', field_or (JStr []) response ''id''),
             (''model'', field_or (JStr []) response ''model''),
             (''created'', field_or JNull response ''created''),
             (''object'', field_or JNull response ''object''),
             (''choices'',
                JArr [JObj [(''messages'',
                  JArr [JObj [(''role'', JStr ''assistant''), (''content'', content)]])]]),
             (''history_metadata'', history_metadata)]))"

section \<open>The conversation endpoint\<close>

text \<open>
  What the handler needs of the request: \<^verbatim>\<open>request.is_json\<close>, the result of awaiting
  \<^verbatim>\<open>request.get_json()\<close> (the parsed body, or the exception it raises) and the headers.
\<close>

record request =
  is_json :: bool
  get_json :: "exn + json"
  headers :: "(string \<times> string) list"

text \<open>
  A handler either returns a body with a status (\<^verbatim>\<open>jsonify(...)\<close> alone is status 200), or an
  exception leaves it.
\<close>

datatype outcome = Response json int | Raised exn

definition error_body :: "string \<Rightarrow> json" where
  "error_body msg = JObj [(''error'', JStr msg)]"

text \<open>\<^verbatim>\<open>SYSTEM_PROMPTS.get(context, app_settings.azure_openai.system_message)\<close>\<close>

definition system_prompt :: "app_settings \<Rightarrow> string \<Rightarrow> string option" where
  "system_prompt s context =
     (case map_of SYSTEM_PROMPTS context of
        Some p \<Rightarrow> Some p
      | None \<Rightarrow> system_message (azure_openai s))"

fun content_of :: "string option \<Rightarrow> json" where
  "content_of None = JNull"
| "content_of (Some p) = JStr p"

definition system_entry :: "string option \<Rightarrow> json" where
  "system_entry p = JObj [(''role'', JStr ''system''), (''content'', content_of p)]"

text \<open>
  \<^verbatim>\<open>conversation_internal\<close>: every exception of the \<^verbatim>\<open>try\<close> block becomes an error body, with
  the exception's \<^verbatim>\<open>status_code\<close> when it has one and 500 otherwise. The request body and the
  calls made are returned as \<^verbatim>\<open>send_chat_request\<close> left them.
\<close>

definition error_response :: "exn \<Rightarrow> outcome" where
  "error_response ex =
     (case status_code ex of
        Some code \<Rightarrow> Response (error_body (exn_str ex)) code
      | None \<Rightarrow> Response (error_body (exn_str ex)) 500)"

definition conversation_internal ::
  "'c openai_sdk \<Rightarrow> app_settings \<Rightarrow> json \<Rightarrow> (string \<times> string) list
     \<Rightarrow> outcome \<times> json \<times> pydict list" where
  "conversation_internal sdk s request_body request_headers =
     (case send_chat_request sdk s request_body request_headers of
        (Inl ex, request_body', cs) \<Rightarrow> (error_response ex, request_body', cs)
      | (Inr (response, apim_request_id), request_body', cs) \<Rightarrow>
          (case py_get request_body' ''history_metadata'' (JObj []) of
             Inl ex \<Rightarrow> (error_response ex, request_body', cs)
           | Inr history_metadata \<Rightarrow>
               (case format_non_streaming_response response history_metadata apim_request_id of
                  Inl ex \<Rightarrow> (error_response ex, request_body', cs)
                | Inr reply \<Rightarrow> (Response reply 200, request_body', cs))))"

text \<open>
  \<^verbatim>\<open>conversation(context)\<close>. Besides the outcome it returns the parsed body as the handler
  left it (\<open>None\<close> when the body was never parsed) and the calls made to the model.
\<close>

definition conversation ::
  "'c openai_sdk \<Rightarrow> app_settings \<Rightarrow> request \<Rightarrow> string
     \<Rightarrow> outcome \<times> json option \<times> pydict list" where
  "conversation sdk s req context =
     (if \<not> is_json req then (Response (error_body ''request must be JSON'') 415, None, [])
      else
     (case get_json req of
        Inl e \<Rightarrow> (Raised e, None, [])
      | Inr request_json \<Rightarrow>
     (if \<not> truthy (system_prompt s context) then
        (Response (error_body (''Unsupported context '' @ quote @ context @ quote)) 400,
         Some request_json, [])
      else
     (case py_get request_json ''messages'' (JArr []) of
        Inl e \<Rightarrow> (Raised e, Some request_json, [])
      | Inr messages \<Rightarrow>
     (case py_insert0 messages (system_entry (system_prompt s context)) of
        Inl e \<Rightarrow> (Raised e, Some request_json, [])
      | Inr messages' \<Rightarrow>
     (case py_setitem request_json ''messages'' messages' of
        Inl e \<Rightarrow> (Raised e, Some request_json, [])
      | Inr request_json' \<Rightarrow>
     (case conversation_internal sdk s request_json' (headers req) of
        (out, request_body, cs) \<Rightarrow> (out, Some request_body, cs))))))))"

section \<open>Startup\<close>

text \<open>
  The history store's SDK: awaiting \<^verbatim>\<open>DefaultAzureCredential()\<close> and the constructor
  \<^verbatim>\<open>CosmosConversationClient(...)\<close>. Either may raise.
\<close>

datatype credential = AccountKey string | AzureCredential

record 'h cosmos_sdk =
  DefaultAzureCredential :: "exn + credential"
  CosmosConversationClient ::
    "string \<Rightarrow> credential \<Rightarrow> string \<Rightarrow> string \<Rightarrow> bool \<Rightarrow> exn + 'h"

definition init_cosmosdb_client :: "'h cosmos_sdk \<Rightarrow> app_settings \<Rightarrow> exn + 'h option" where
  "init_cosmosdb_client sdk s =
     (case chat_history s of
        None \<Rightarrow> Inr None
      | Some ch \<Rightarrow>
          (let cosmos_endpoint = ''https://'' @ account ch @ ''.documents.azure.com:443/'' in
           (case (case account_key ch of
                    Some k \<Rightarrow> if k \<noteq> [] then Inr (AccountKey k) else DefaultAzureCredential sdk
                  | None \<Rightarrow> DefaultAzureCredential sdk) of
              Inl e \<Rightarrow> Inl e
            | Inr cred \<Rightarrow>
                (case CosmosConversationClient sdk cosmos_endpoint cred (database ch)
                        (conversations_container ch) (enable_feedback ch) of
                   Inl e \<Rightarrow> Inl e
                 | Inr c \<Rightarrow> Inr (Some c)))))"

text \<open>
  The state the startup hook writes: the attribute \<^verbatim>\<open>app.cosmos_conversation_client\<close>
  (\<open>None\<close> while it was never assigned, \<open>Some None\<close> for Python's \<^verbatim>\<open>None\<close>) and the event
  \<^verbatim>\<open>cosmos_db_ready\<close>, which is created unset.
\<close>

record 'h app_state =
  cosmos_conversation_client :: "'h option option"
  cosmos_db_ready :: bool

definition initial_state :: "'h app_state" where
  "initial_state = \<lparr>cosmos_conversation_client = None, cosmos_db_ready = False\<rparr>"

definition init ::
  "'h cosmos_sdk \<Rightarrow> app_settings \<Rightarrow> 'h app_state \<Rightarrow> (exn + unit) \<times> 'h app_state" where
  "init sdk s app =
     (case init_cosmosdb_client sdk s of
        Inr c \<Rightarrow>
          (Inr (), app\<lparr>cosmos_conversation_client := Some c, cosmos_db_ready := True\<rparr>)
      | Inl e \<Rightarrow> (Inl e, app\<lparr>cosmos_conversation_client := Some None\<rparr>))"

text \<open>
  \<^verbatim>\<open>init\<close> is registered with \<^verbatim>\<open>@app.before_serving\<close>: the framework runs it once before it
  accepts requests, and an exception raised by it ends the startup.
\<close>

datatype phase = Serving | Aborted exn

definition before_serving ::
  "'h cosmos_sdk \<Rightarrow> app_settings \<Rightarrow> 'h app_state \<Rightarrow> phase \<times> 'h app_state" where
  "before_serving sdk s app =
     (case init sdk s app of
        (Inl e, app') \<Rightarrow> (Aborted e, app')
      | (Inr u, app') \<Rightarrow> (Serving, app'))"

section \<open>Vocabulary of the properties\<close>

text \<open>A message whose role equals \<^verbatim>\<open>"tool"\<close>.\<close>

definition is_tool :: "json \<Rightarrow> bool" where
  "is_tool m = (field m ''role'' = Some (JStr ''tool''))"

section \<open>Example inputs\<close>

text \<open>
  A configuration, two behaviours of the completion endpoint (one answers, one refuses with
  status 429) and a request with a user, a tool and an assistant message.
\<close>

definition example_settings :: app_settings where
  "example_settings =
     \<lparr>azure_openai =
        \<lparr>system_message = Some ''You are an AI assistant.'',
         temperature = JFloat (7 / 10),
         max_tokens = JInt 1000,
         top_p = JFloat (95 / 100),
         stop_sequence = JNull,
         stream = JBool False,
         model = JStr ''gpt-4'',
         endpoint = None,
         resource = Some ''contoso'',
         preview_api_version = ''2024-02-15-preview'',
         key = Some ''secret''\<rparr>,
      chat_history = None\<rparr>"

definition no_default_settings :: app_settings where
  "no_default_settings =
     example_settings\<lparr>azure_openai := (azure_openai example_settings)\<lparr>system_message := None\<rparr>\<rparr>"

definition example_completion :: json where
  "example_completion =
     JObj [(''id'', JStr ''abc''), (''model'', JStr ''gpt-x''),
           (''choices'',
              JArr [JObj [(''message'',
                JObj [(''role'', JStr ''assistant''), (''content'', JStr ''hi'')])]])]"

definition answering_sdk :: "unit openai_sdk" where
  "answering_sdk =
     \<lparr>AsyncAzureOpenAI = (\<lambda>v k e. Inr ()),
      create = (\<lambda>c a. Inr \<lparr>parse = Inr example_completion, headers_get = (\<lambda>h. None)\<rparr>)\<rparr>"

definition throttled_sdk :: "unit openai_sdk" where
  "throttled_sdk =
     \<lparr>AsyncAzureOpenAI = (\<lambda>v k e. Inr ()),
      create = (\<lambda>c a. Inl (Exn ''RateLimitError'' ''Too Many Requests'' (Some 429)))\<rparr>"

definition example_messages :: "json list" where
  "example_messages =
     [JObj [(''role'', JStr ''user''), (''content'', JStr ''My printer is offline'')],
      JObj [(''role'', JStr ''tool''), (''content'', JStr ''{}'')],
      JObj [(''role'', JStr ''assistant''), (''content'', JStr ''Is it plugged in?'')]]"

definition example_body :: json where
  "example_body =
     JObj [(''messages'', JArr example_messages),
           (''history_metadata'', JObj [(''foo'', JInt 1)])]"

definition example_request :: request where
  "example_request = \<lparr>is_json = True, get_json = Inr example_body, headers = []\<rparr>"

definition example_args :: pydict where
  "example_args =
     [(''messages'',
         JArr [JObj [(''role'', JStr ''system''),
                     (''content'', JStr ''You are an expert IT assistant. Provide detailed technical guidance and solutions for IT-related queries.'')],
               JObj [(''role'', JStr ''user''), (''content'', JStr ''My printer is offline'')],
               JObj [(''role'', JStr ''assistant''), (''content'', JStr ''Is it plugged in?'')]]),
      (''temperature'', JFloat (7 / 10)),
      (''max_tokens'', JInt 1000),
      (''top_p'', JFloat (95 / 100)),
      (''stop'', JNull),
      (''stream'', JBool False),
      (''model'', JStr ''gpt-4'')]"

definition empty_request :: request where
  "empty_request = \<lparr>is_json = True, get_json = Inr (JObj []), headers = []\<rparr>"

definition null_messages_request :: request where
  "null_messages_request =
     \<lparr>is_json = True, get_json = Inr (JObj [(''messages'', JNull)]), headers = []\<rparr>"

definition form_request :: request where
  "form_request = \<lparr>is_json = False, get_json = Inr JNull, headers = []\<rparr>"

definition string_message_request :: request where
  "string_message_request =
     \<lparr>is_json = True, get_json = Inr (JObj [(''messages'', JArr [JStr ''hi''])]), headers = []\<rparr>"

definition malformed_json_request :: request where
  "malformed_json_request =
     \<lparr>is_json = True,
      get_json = Inl (Exn ''BadRequest''
        ''400 Bad Request: The browser (or proxy) sent a request that this server could not understand.''
        None),
      headers = []\<rparr>"

definition history_settings :: app_settings where
  "history_settings =
     example_settings\<lparr>chat_history :=
       Some \<lparr>account = ''contoso-db'', account_key = Some ''secret'', database = ''db_conversation_history'',
             conversations_container = ''conversations'', enable_feedback = False\<rparr>\<rparr>"

definition refusing_cosmos_sdk :: "unit cosmos_sdk" where
  "refusing_cosmos_sdk =
     \<lparr>DefaultAzureCredential = Inr AzureCredential,
      CosmosConversationClient =
        (\<lambda>cosmosdb_endpoint cred database_name container_name enable_message_feedback.
           Inl (Exn ''ValueError'' ''Invalid credentials'' None))\<rparr>"

section \<open>Normalization on an explicit store\<close>

text \<open>
  The handler changes the parsed body in place: \<^verbatim>\<open>messages.insert\<close> writes into the list object
  that the body holds, and the two assignments to \<^verbatim>\<open>["messages"]\<close> write into the body's dict.
  To say which objects are written, lines 89 to 91 of \<^verbatim>\<open>conversation\<close> and lines 114 to 118 of
  \<^verbatim>\<open>send_chat_request\<close> are modelled a second time, on a store of objects: a value is a
  scalar or a reference, an object is a list or a dict, \<open>new\<close> allocates at the next free
  address, and each function returns the exception raised, if any, with the store as the run
  left it. The literals \<^verbatim>\<open>[]\<close> and \<^verbatim>\<open>{"role": ..., "content": ...}\<close> allocate fresh objects.
\<close>

datatype pyval = VNone | VBool bool | VInt int | VFloat rat | VStr string | VRef nat

datatype pyobj = ListObj "pyval list" | DictObj "(string \<times> pyval) list"

record store =
  objs :: "nat \<Rightarrow> pyobj"
  next_addr :: nat

definition new :: "pyobj \<Rightarrow> store \<Rightarrow> nat \<times> store" where
  "new obj h =
     (next_addr h, \<lparr>objs = (objs h)(next_addr h := obj), next_addr = Suc (next_addr h)\<rparr>)"

definition put :: "nat \<Rightarrow> pyobj \<Rightarrow> store \<Rightarrow> store" where
  "put a obj h = h\<lparr>objs := (objs h)(a := obj)\<rparr>"

fun type_name_in :: "store \<Rightarrow> pyval \<Rightarrow> string" where
  "type_name_in h VNone = ''NoneType''"
| "type_name_in h (VBool _) = ''bool''"
| "type_name_in h (VInt _) = ''int''"
| "type_name_in h (VFloat _) = ''float''"
| "type_name_in h (VStr _) = ''str''"
| "type_name_in h (VRef a) = (case objs h a of ListObj _ \<Rightarrow> ''list'' | DictObj _ \<Rightarrow> ''dict'')"

definition no_attribute_in :: "store \<Rightarrow> pyval \<Rightarrow> string \<Rightarrow> exn" where
  "no_attribute_in h v a =
     Exn ''AttributeError''
       (quote @ type_name_in h v @ quote @ '' object has no attribute '' @ quote @ a @ quote)
       None"

fun get_in :: "store \<Rightarrow> pyval \<Rightarrow> string \<Rightarrow> pyval \<Rightarrow> exn + pyval" where
  "get_in h (VRef a) k dflt =
     (case objs h a of
        DictObj d \<Rightarrow> Inr (case map_of d k of Some v \<Rightarrow> v | None \<Rightarrow> dflt)
      | ListObj xs \<Rightarrow> Inl (no_attribute_in h (VRef a) ''get''))"
| "get_in h v k dflt = Inl (no_attribute_in h v ''get'')"

fun iter_in :: "store \<Rightarrow> pyval \<Rightarrow> exn + pyval list" where
  "iter_in h (VRef a) =
     (case objs h a of
        ListObj xs \<Rightarrow> Inr xs
      | DictObj d \<Rightarrow> Inr (map (\<lambda>kv. VStr (fst kv)) d))"
| "iter_in h (VStr s) = Inr (map (\<lambda>c. VStr [c]) s)"
| "iter_in h v =
     Inl (Exn ''TypeError'' (quote @ type_name_in h v @ quote @ '' object is not iterable'') None)"

fun keep_messages :: "store \<Rightarrow> pyval list \<Rightarrow> exn + pyval list" where
  "keep_messages h [] = Inr []"
| "keep_messages h (message # rest) =
     (case get_in h message ''role'' VNone of
        Inl e \<Rightarrow> Inl e
      | Inr role \<Rightarrow>
          (case keep_messages h rest of
             Inl e \<Rightarrow> Inl e
           | Inr out \<Rightarrow> Inr (if role \<noteq> VStr ''tool'' then message # out else out)))"

definition conversation_store :: "string \<Rightarrow> nat \<Rightarrow> store \<Rightarrow> exn option \<times> store" where
  "conversation_store p r h =
     (case new (ListObj []) h of (dflt, h1) \<Rightarrow>
     (case get_in h1 (VRef r) ''messages'' (VRef dflt) of
        Inl e \<Rightarrow> (Some e, h1)
      | Inr messages \<Rightarrow>
     (case messages of
        VRef a \<Rightarrow>
          (case objs h1 a of
             ListObj xs \<Rightarrow>
               (case new (DictObj [(''role'', VStr ''system''), (''content'', VStr p)]) h1 of
                  (entry, h2) \<Rightarrow>
                    (let h3 = put a (ListObj (VRef entry # xs)) h2 in
                     (case objs h3 r of
                        DictObj d \<Rightarrow>
                          (None, put r (DictObj (AList.update ''messages'' messages d)) h3)
                      | ListObj ys \<Rightarrow>
                          (Some (Exn ''TypeError''
                             ''list indices must be integers or slices, not str'' None), h3))))
           | DictObj d \<Rightarrow> (Some (no_attribute_in h1 messages ''insert''), h1))
      | _ \<Rightarrow> (Some (no_attribute_in h1 messages ''insert''), h1))))"

definition send_chat_request_store :: "nat \<Rightarrow> store \<Rightarrow> exn option \<times> store" where
  "send_chat_request_store r h =
     (case new (ListObj []) h of (dflt, h1) \<Rightarrow>
     (case get_in h1 (VRef r) ''messages'' (VRef dflt) of
        Inl e \<Rightarrow> (Some e, h1)
      | Inr msgs \<Rightarrow>
     (case iter_in h1 msgs of
        Inl e \<Rightarrow> (Some e, h1)
      | Inr ms \<Rightarrow>
     (case keep_messages h1 ms of
        Inl e \<Rightarrow> (Some e, h1)
      | Inr filtered_messages \<Rightarrow>
     (case new (ListObj filtered_messages) h1 of (filtered, h2) \<Rightarrow>
     (case objs h2 r of
        DictObj d \<Rightarrow> (None, put r (DictObj (AList.update ''messages'' (VRef filtered) d)) h2)
      | ListObj ys \<Rightarrow>
          (Some (Exn ''TypeError'' ''list indices must be integers or slices, not str'' None),
           h2)))))))"

definition normalize_store :: "string \<Rightarrow> nat \<Rightarrow> store \<Rightarrow> exn option \<times> store" where
  "normalize_store p r h =
     (case conversation_store p r h of
        (Some e, h1) \<Rightarrow> (Some e, h1)
      | (None, h1) \<Rightarrow> send_chat_request_store r h1)"

definition messages_addr :: "store \<Rightarrow> nat \<Rightarrow> nat option" where
  "messages_addr h r =
     (case objs h r of
        DictObj d \<Rightarrow> (case map_of d ''messages'' of Some (VRef a) \<Rightarrow> Some a | _ \<Rightarrow> None)
      | ListObj xs \<Rightarrow> None)"

definition entry_of :: "store \<Rightarrow> nat \<Rightarrow> string \<Rightarrow> pyval option" where
  "entry_of h a k = (case objs h a of DictObj d \<Rightarrow> map_of d k | ListObj xs \<Rightarrow> None)"

definition example_store :: store where
  "example_store =
     \<lparr>objs = (\<lambda>a. ListObj [])
        (0 := DictObj [(''title'', VStr ''Contoso'')],
         1 := DictObj [(''messages'', VRef 2), (''history_metadata'', VRef 5)],
         2 := ListObj [VRef 3, VRef 4],
         3 := DictObj [(''role'', VStr ''user''), (''content'', VStr ''My printer is offline'')],
         4 := DictObj [(''role'', VStr ''tool''), (''content'', VStr ''{}'')],
         5 := DictObj [(''foo'', VInt 1)]),
      next_addr = 6\<rparr>"

section \<open>Auxiliary facts\<close>

lemma filter_messages_Inr:
  "filter_messages ms = Inr out \<Longrightarrow> out = filter (\<lambda>m. \<not> is_tool m) ms"
proof (induction ms arbitrary: out)
  case Nil
  then show ?case by simp
next
  case (Cons m ms)
  then show ?case
    by (cases m) (auto simp: is_tool_def split: sum.splits option.splits if_splits)
qed

lemma filter_messages_dicts:
  "filter_messages ms = Inr out \<Longrightarrow> m \<in> set ms \<Longrightarrow> \<exists>d. m = JObj d"
proof (induction ms arbitrary: out)
  case Nil
  then show ?case by simp
next
  case (Cons x xs)
  then show ?case
    by (cases x) (auto split: sum.splits)
qed

lemma filter_messages_total:
  "(\<forall>m \<in> set ms. \<exists>d. m = JObj d) \<Longrightarrow> \<exists>out. filter_messages ms = Inr out"
  by (induction ms) (auto split: sum.splits)

lemma field_or_update_same [simp]:
  "field_or dflt (JObj (AList.update k v d)) k = v"
  by (simp add: update_conv')

lemma filter_messages_system_entry:
  "filter_messages (system_entry p # ms) =
     (case filter_messages ms of Inl e \<Rightarrow> Inl e | Inr out \<Rightarrow> Inr (system_entry p # out))"
  by (simp add: system_entry_def split: sum.splits)

lemma send_chat_request_calls:
  assumes "a \<in> set (snd (snd (send_chat_request sdk s (JObj d) hs)))"
  shows "\<exists>ms out. py_iter (field_or (JArr []) (JObj d) ''messages'') = Inr ms \<and>
           filter_messages ms = Inr out \<and>
           a = [(''messages'', JArr out),
                (''temperature'', temperature (azure_openai s)),
                (''max_tokens'', max_tokens (azure_openai s)),
                (''top_p'', top_p (azure_openai s)),
                (''stop'', stop_sequence (azure_openai s)),
                (''stream'', stream (azure_openai s)),
                (''model'', model (azure_openai s))]"
  using assms
  by (auto simp: send_chat_request_def prepare_model_args_def update_conv'
           split: sum.splits option.splits)

lemma conversation_internal_calls:
  "snd (snd (conversation_internal sdk s rb hs)) = snd (snd (send_chat_request sdk s rb hs))"
  by (auto simp: conversation_internal_def split: sum.splits prod.splits)

lemma py_get_Inr: "py_get v k dflt = Inr x \<Longrightarrow> \<exists>d. v = JObj d \<and> x = field_or dflt (JObj d) k"
  by (cases v) auto

lemma py_insert0_Inr: "py_insert0 v x = Inr y \<Longrightarrow> \<exists>xs. v = JArr xs \<and> y = JArr (x # xs)"
  by (cases v) auto

lemma conversation_calls:
  assumes "a \<in> set (snd (snd (conversation sdk s req context)))"
  shows "\<exists>d ms. get_json req = Inr (JObj d) \<and>
           field_or (JArr []) (JObj d) ''messages'' = JArr ms \<and>
           truthy (system_prompt s context) \<and>
           a \<in> set (snd (snd (send_chat_request sdk s
                 (JObj (AList.update ''messages''
                    (JArr (system_entry (system_prompt s context) # ms)) d)) (headers req))))"
proof -
  from assms have j: "is_json req"
    by (auto simp: conversation_def split: if_splits)
  from assms j have t: "truthy (system_prompt s context)"
    by (auto simp: conversation_def split: if_splits sum.splits)
  from assms j obtain body where b: "get_json req = Inr body"
    by (cases "get_json req") (auto simp: conversation_def)
  from assms j t b obtain msgs where g: "py_get body ''messages'' (JArr []) = Inr msgs"
    by (cases "py_get body ''messages'' (JArr [])") (auto simp: conversation_def)
  then obtain d where d: "body = JObj d" "msgs = field_or (JArr []) (JObj d) ''messages''"
    using py_get_Inr by blast
  from assms j t b g obtain msgs' where
    i: "py_insert0 msgs (system_entry (system_prompt s context)) = Inr msgs'"
    by (cases "py_insert0 msgs (system_entry (system_prompt s context))")
       (auto simp: conversation_def)
  then obtain ms where ms: "msgs = JArr ms"
    "msgs' = JArr (system_entry (system_prompt s context) # ms)"
    using py_insert0_Inr by blast
  from j t b g i d ms have
    "snd (snd (conversation sdk s req context)) =
       snd (snd (conversation_internal sdk s
         (JObj (AList.update ''messages''
            (JArr (system_entry (system_prompt s context) # ms)) d)) (headers req)))"
    by (simp add: conversation_def split_beta)
  with assms have "a \<in> set (snd (snd (send_chat_request sdk s
         (JObj (AList.update ''messages''
            (JArr (system_entry (system_prompt s context) # ms)) d)) (headers req))))"
    by (simp add: conversation_internal_calls)
  moreover have "field_or (JArr []) (JObj d) ''messages'' = JArr ms"
    using d ms by simp
  ultimately show ?thesis
    using b t d by blast
qed

lemmas example_defs =
  example_settings_def no_default_settings_def example_completion_def answering_sdk_def
  throttled_sdk_def example_messages_def example_body_def example_request_def
  example_args_def

lemmas handler_defs =
  conversation_def conversation_internal_def send_chat_request_def prepare_model_args_def
  init_openai_client_def system_prompt_def SYSTEM_PROMPTS_def system_entry_def
  error_response_def error_body_def format_non_streaming_response_def
  first_choice_content_def quote_def

lemma example_calls:
  "snd (snd (conversation answering_sdk example_settings example_request ''it'')) = [example_args]"
  by (simp add: example_defs handler_defs)

lemma conversation_main:
  assumes "is_json req" and "get_json req = Inr (JObj d)"
    and "field_or (JArr []) (JObj d) ''messages'' = JArr ms"
    and "truthy (system_prompt s context)"
  shows "conversation sdk s req context =
           (case conversation_internal sdk s
                   (JObj (AList.update ''messages''
                      (JArr (system_entry (system_prompt s context) # ms)) d)) (headers req) of
              (out, rb, cs) \<Rightarrow> (out, Some rb, cs))"
  using assms by (simp add: conversation_def)

lemma send_chat_request_main:
  assumes "filter_messages ms = Inr out"
  shows "send_chat_request sdk s (JObj (AList.update ''messages'' (JArr ms) d)) hs =
     (let rb = JObj (AList.update ''messages'' (JArr out)
                      (AList.update ''messages'' (JArr ms) d));
          args = [(''messages'', JArr out),
                  (''temperature'', temperature (azure_openai s)),
                  (''max_tokens'', max_tokens (azure_openai s)),
                  (''top_p'', top_p (azure_openai s)),
                  (''stop'', stop_sequence (azure_openai s)),
                  (''stream'', stream (azure_openai s)),
                  (''model'', model (azure_openai s))]
      in case init_openai_client sdk s of
           Inl e \<Rightarrow> (Inl e, rb, [])
         | Inr c \<Rightarrow>
             (case create sdk c args of
                Inl e \<Rightarrow> (Inl e, rb, [args])
              | Inr raw \<Rightarrow>
                  (case parse raw of
                     Inl e \<Rightarrow> (Inl e, rb, [args])
                   | Inr response \<Rightarrow>
                       (Inr (response,
                          (case headers_get raw ''apim-request-id'' of
                             Some v \<Rightarrow> JStr v | None \<Rightarrow> JNull)), rb, [args]))))"
  using assms
  by (simp add: send_chat_request_def prepare_model_args_def update_conv' Let_def
           split: sum.splits)

lemma conversation_single_call:
  assumes "snd (snd (conversation sdk s req context)) = [a]"
  shows "\<exists>d ms out.
           get_json req = Inr (JObj d) \<and>
           filter_messages (system_entry (system_prompt s context) # ms) = Inr out \<and>
           a = [(''messages'', JArr out),
                (''temperature'', temperature (azure_openai s)),
                (''max_tokens'', max_tokens (azure_openai s)),
                (''top_p'', top_p (azure_openai s)),
                (''stop'', stop_sequence (azure_openai s)),
                (''stream'', stream (azure_openai s)),
                (''model'', model (azure_openai s))] \<and>
           conversation sdk s req context =
             (case conversation_internal sdk s
                    (JObj (AList.update ''messages''
                       (JArr (system_entry (system_prompt s context) # ms)) d)) (headers req) of
                (out, rb, cs) \<Rightarrow> (out, Some rb, cs))"
proof -
  from assms have a: "a \<in> set (snd (snd (conversation sdk s req context)))"
    by simp
  then have j: "is_json req"
    by (auto simp: conversation_def split: if_splits)
  from conversation_calls [OF a] obtain d ms where
    b: "get_json req = Inr (JObj d)" and
    m: "field_or (JArr []) (JObj d) ''messages'' = JArr ms" and
    t: "truthy (system_prompt s context)" and
    c: "a \<in> set (snd (snd (send_chat_request sdk s
          (JObj (AList.update ''messages''
             (JArr (system_entry (system_prompt s context) # ms)) d)) (headers req))))"
    by blast
  from send_chat_request_calls [OF c] obtain out where
    "filter_messages (system_entry (system_prompt s context) # ms) = Inr out"
    "a = [(''messages'', JArr out),
          (''temperature'', temperature (azure_openai s)),
          (''max_tokens'', max_tokens (azure_openai s)),
          (''top_p'', top_p (azure_openai s)),
          (''stop'', stop_sequence (azure_openai s)),
          (''stream'', stream (azure_openai s)),
          (''model'', model (azure_openai s))]"
    by (auto simp: update_conv')
  with b conversation_main [where sdk = sdk, OF j b m t] show ?thesis
    by blast
qed

lemma conversation_store_frame:
  assumes "a < next_addr h" and "a \<noteq> r" and "messages_addr h r \<noteq> Some a"
  shows "objs (snd (conversation_store p r h)) a = objs h a"
  using assms
  by (auto simp: conversation_store_def new_def put_def messages_addr_def Let_def
           split: pyobj.splits option.splits pyval.splits sum.splits prod.splits)

lemma conversation_store_next:
  "next_addr h \<le> next_addr (snd (conversation_store p r h))"
  by (auto simp: conversation_store_def new_def put_def Let_def
           split: pyobj.splits option.splits pyval.splits sum.splits prod.splits)

lemma conversation_store_entry:
  assumes "a < next_addr h" and "k \<noteq> ''messages''"
  shows "entry_of (snd (conversation_store p r h)) a k = entry_of h a k"
  using assms
  by (auto simp: conversation_store_def new_def put_def entry_of_def Let_def update_conv'
           split: pyobj.splits option.splits pyval.splits sum.splits prod.splits)

lemma send_chat_request_store_frame:
  assumes "a < next_addr h" and "a \<noteq> r"
  shows "objs (snd (send_chat_request_store r h)) a = objs h a"
  using assms
  by (auto simp: send_chat_request_store_def new_def put_def Let_def
           split: pyobj.splits option.splits pyval.splits sum.splits prod.splits)

lemma send_chat_request_store_entry:
  assumes "a < next_addr h" and "k \<noteq> ''messages''"
  shows "entry_of (snd (send_chat_request_store r h)) a k = entry_of h a k"
  using assms
  by (auto simp: send_chat_request_store_def new_def put_def entry_of_def Let_def update_conv'
           split: pyobj.splits option.splits pyval.splits sum.splits prod.splits)

lemma normalize_store_snd:
  "snd (normalize_store p r h) =
     (case fst (conversation_store p r h) of
        Some e \<Rightarrow> snd (conversation_store p r h)
      | None \<Rightarrow> snd (send_chat_request_store r (snd (conversation_store p r h))))"
  by (cases "conversation_store p r h") (auto simp: normalize_store_def split: option.splits)

lemma example_normalized:
  "fst (normalize_store ''Be brief.'' 1 example_store) = None
   \<and> objs (snd (normalize_store ''Be brief.'' 1 example_store)) 1 =
       DictObj [(''messages'', VRef 9), (''history_metadata'', VRef 5)]
   \<and> objs (snd (normalize_store ''Be brief.'' 1 example_store)) 9 = ListObj [VRef 7, VRef 3]
   \<and> objs (snd (normalize_store ''Be brief.'' 1 example_store)) 7 =
       DictObj [(''role'', VStr ''system''), (''content'', VStr ''Be brief.'')]
   \<and> objs (snd (normalize_store ''Be brief.'' 1 example_store)) 2 =
       ListObj [VRef 7, VRef 3, VRef 4]"
  by (simp add: normalize_store_def conversation_store_def send_chat_request_store_def
        example_store_def new_def put_def Let_def)

section \<open>Model invocation arguments\<close>

text \<open>
  C6. The arguments prepared for the model are the flat dict with exactly the keys
  messages, temperature, max_tokens, top_p, stop, stream and model, in this order; messages
  is the request body's entry (the empty list when it has none) and each of the other six
  is the configuration's value, unchanged.
\<close>

theorem prepare_model_args_flat:
  "prepare_model_args s (JObj d) hs =
     Inr [(''messages'', (case map_of d ''messages'' of Some v \<Rightarrow> v | None \<Rightarrow> JArr [])),
          (''temperature'', temperature (azure_openai s)),
          (''max_tokens'', max_tokens (azure_openai s)),
          (''top_p'', top_p (azure_openai s)),
          (''stop'', stop_sequence (azure_openai s)),
          (''stream'', stream (azure_openai s)),
          (''model'', model (azure_openai s))]"
  by (simp add: prepare_model_args_def)

section \<open>Messages forwarded to the model\<close>

text \<open>
  C1. Whenever the handler hands arguments to the model, the request body was a JSON object
  whose messages entry is a list (the empty list when absent), and the forwarded list is the
  system entry, with role system and the selected prompt as content, followed by the
  original messages without those whose role equals tool, in their original order. With N
  tool messages its length is the original length minus N plus one.
\<close>

theorem forwarded_messages:
  assumes "model_args \<in> set (snd (snd (conversation sdk s req context)))"
  shows "\<exists>d ms p. get_json req = Inr (JObj d) \<and>
           field_or (JArr []) (JObj d) ''messages'' = JArr ms \<and>
           system_prompt s context = Some p \<and>
           map_of model_args ''messages'' =
             Some (JArr (JObj [(''role'', JStr ''system''), (''content'', JStr p)]
                          # filter (\<lambda>m. \<not> is_tool m) ms)) \<and>
           length (JObj [(''role'', JStr ''system''), (''content'', JStr p)]
                     # filter (\<lambda>m. \<not> is_tool m) ms)
             + length (filter is_tool ms) = length ms + 1"
proof -
  from conversation_calls [OF assms] obtain d ms where
    b: "get_json req = Inr (JObj d)" and
    m: "field_or (JArr []) (JObj d) ''messages'' = JArr ms" and
    t: "truthy (system_prompt s context)" and
    c: "model_args \<in> set (snd (snd (send_chat_request sdk s
          (JObj (AList.update ''messages''
             (JArr (system_entry (system_prompt s context) # ms)) d)) (headers req))))"
    by blast
  from t obtain p where p: "system_prompt s context = Some p"
    by (cases "system_prompt s context") auto
  from send_chat_request_calls [OF c] obtain out where
    f: "filter_messages (system_entry (system_prompt s context) # ms) = Inr out" and
    a: "map_of model_args ''messages'' = Some (JArr out)"
    by (auto simp: update_conv')
  from f [unfolded filter_messages_system_entry] obtain out' where
    o: "filter_messages ms = Inr out'" "out = system_entry (system_prompt s context) # out'"
    by (cases "filter_messages ms") auto
  from o have "out = system_entry (Some p) # filter (\<lambda>m. \<not> is_tool m) ms"
    using filter_messages_Inr p by simp
  moreover have "length (filter (\<lambda>m. \<not> is_tool m) ms) + length (filter is_tool ms) = length ms"
    using sum_length_filter_compl [of is_tool ms] by simp
  ultimately show ?thesis using b m p a
    by (simp add: system_entry_def)
qed

theorem forwarded_messages_witness:
  "example_args \<in> set (snd (snd (conversation answering_sdk example_settings example_request ''it'')))
   \<and> (\<exists>d ms p. get_json example_request = Inr (JObj d) \<and>
           field_or (JArr []) (JObj d) ''messages'' = JArr ms \<and>
           system_prompt example_settings ''it'' = Some p \<and>
           map_of example_args ''messages'' =
             Some (JArr (JObj [(''role'', JStr ''system''), (''content'', JStr p)]
                          # filter (\<lambda>m. \<not> is_tool m) ms)) \<and>
           length (JObj [(''role'', JStr ''system''), (''content'', JStr p)]
                     # filter (\<lambda>m. \<not> is_tool m) ms)
             + length (filter is_tool ms) = length ms + 1)"
proof -
  have h: "example_args \<in> set (snd (snd (conversation answering_sdk example_settings example_request ''it'')))"
    by (simp add: example_calls)
  from forwarded_messages [OF h] h show ?thesis by blast
qed

section \<open>Prompt selection\<close>

text \<open>
  C2. The prompt resolved for the context it is the fixed IT-assistant string, for legal the
  fixed legal-assistant string, and for every other context the configured default
  \<^verbatim>\<open>system_message\<close>. A JSON request whose context has no mapped prompt while the default
  is \<^verbatim>\<open>None\<close> or empty is answered with status 400 and the error
  \<^verbatim>\<open>Unsupported context '<context>'\<close>; the model is not called.
\<close>

theorem prompt_selection:
  "system_prompt s ''it'' =
     Some ''You are an expert IT assistant. Provide detailed technical guidance and solutions for IT-related queries.''
   \<and> system_prompt s ''legal'' =
     Some ''You are a professional legal assistant. Provide accurate, concise, and compliant legal advice.''
   \<and> (context \<noteq> ''it'' \<and> context \<noteq> ''legal''
        \<longrightarrow> system_prompt s context = system_message (azure_openai s))
   \<and> (is_json req \<and> get_json req = Inr body \<and> context \<noteq> ''it'' \<and> context \<noteq> ''legal''
        \<and> \<not> truthy (system_message (azure_openai s))
        \<longrightarrow> conversation sdk s req context =
              (Response (JObj [(''error'', JStr (''Unsupported context '' @ [CHR 0x27] @ context @ [CHR 0x27]))]) 400,
               Some body, []))"
  by (simp add: system_prompt_def SYSTEM_PROMPTS_def conversation_def error_body_def quote_def)

theorem prompt_selection_witness:
  "is_json example_request \<and> get_json example_request = Inr example_body
   \<and> ''hr'' \<noteq> ''it'' \<and> ''hr'' \<noteq> ''legal''
   \<and> \<not> truthy (system_message (azure_openai no_default_settings))
   \<and> system_prompt no_default_settings ''hr'' = None
   \<and> conversation answering_sdk no_default_settings example_request ''hr'' =
        (Response (JObj [(''error'', JStr (''Unsupported context '' @ [CHR 0x27] @ ''hr'' @ [CHR 0x27]))]) 400,
         Some example_body, [])"
  using prompt_selection [of no_default_settings "''hr''" example_request example_body
      answering_sdk]
  by (simp add: example_request_def no_default_settings_def example_settings_def)

section \<open>Requests that are not JSON\<close>

text \<open>
  C8, as stated, fails: the handler tests \<^verbatim>\<open>request.is_json\<close>, which is about the declared
  content type, not about the body. When a request declared as JSON has a body that cannot be
  parsed, \<^verbatim>\<open>request.get_json()\<close> raises, outside any \<^verbatim>\<open>try\<close> block, and the exception leaves
  the handler: there is no 415 response and no body with an \<^verbatim>\<open>error\<close> field.
\<close>

theorem non_json_body_counterexample:
  "conversation answering_sdk example_settings malformed_json_request ''it'' =
     (Raised (Exn ''BadRequest''
        ''400 Bad Request: The browser (or proxy) sent a request that this server could not understand.''
        None), None, [])"
  by (simp add: conversation_def malformed_json_request_def)

text \<open>
  C8, amended. A request that is not declared as JSON (\<^verbatim>\<open>request.is_json\<close> is false) is
  answered with status 415 and the body \<^verbatim>\<open>{"error": "request must be JSON"}\<close>, whatever its
  body, the context and the configuration: the body is never parsed, no prompt is selected
  and the model is not called.
\<close>

theorem non_json_rejected:
  assumes "\<not> is_json req"
  shows "conversation sdk s req context =
           (Response (JObj [(''error'', JStr ''request must be JSON'')]) 415, None, [])"
  using assms by (simp add: conversation_def error_body_def)

theorem non_json_rejected_witness:
  "\<not> is_json form_request
   \<and> conversation throttled_sdk example_settings form_request ''it'' =
       (Response (JObj [(''error'', JStr ''request must be JSON'')]) 415, None, [])"
  using non_json_rejected [of form_request throttled_sdk example_settings "''it''"]
  by (simp add: form_request_def)

section \<open>A request without messages\<close>

text \<open>
  C10. A JSON object without a messages entry, or with an empty messages list, is accepted:
  when a prompt is selected and the client can be constructed, the model is called once, and
  the forwarded message list is exactly the system entry.
\<close>

theorem empty_messages_accepted:
  assumes "is_json req" and "get_json req = Inr (JObj d)"
    and "map_of d ''messages'' = None \<or> map_of d ''messages'' = Some (JArr [])"
    and "system_prompt s context = Some p" and "p \<noteq> []"
    and "init_openai_client sdk s = Inr client"
  shows "\<exists>model_args. snd (snd (conversation sdk s req context)) = [model_args] \<and>
           map_of model_args ''messages'' =
             Some (JArr [JObj [(''role'', JStr ''system''), (''content'', JStr p)]])"
proof -
  from assms(3) have m: "field_or (JArr []) (JObj d) ''messages'' = JArr []"
    by auto
  have f: "filter_messages [system_entry (Some p)] = Inr [system_entry (Some p)]"
    by (simp add: system_entry_def)
  from assms(4,5) have t: "truthy (system_prompt s context)"
    by simp
  have "snd (snd (conversation sdk s req context)) =
          snd (snd (send_chat_request sdk s
            (JObj (AList.update ''messages'' (JArr [system_entry (Some p)]) d)) (headers req)))"
    using conversation_main [where sdk = sdk, OF assms(1,2) m t] assms(4)
    by (simp add: split_beta conversation_internal_calls)
  also have "\<dots> = [[(''messages'', JArr [system_entry (Some p)]),
                   (''temperature'', temperature (azure_openai s)),
                   (''max_tokens'', max_tokens (azure_openai s)),
                   (''top_p'', top_p (azure_openai s)),
                   (''stop'', stop_sequence (azure_openai s)),
                   (''stream'', stream (azure_openai s)),
                   (''model'', model (azure_openai s))]]"
    using assms(6)
    by (simp add: send_chat_request_main [OF f] Let_def split: sum.splits)
  finally show ?thesis
    by (simp add: system_entry_def)
qed

theorem empty_messages_accepted_witness:
  "is_json empty_request \<and> get_json empty_request = Inr (JObj [])
   \<and> (map_of ([] :: (string \<times> json) list) ''messages'' = None
        \<or> map_of ([] :: (string \<times> json) list) ''messages'' = Some (JArr []))
   \<and> system_prompt example_settings ''finance'' = Some ''You are an AI assistant.''
   \<and> ''You are an AI assistant.'' \<noteq> []
   \<and> init_openai_client answering_sdk example_settings = Inr ()
   \<and> (\<exists>model_args.
         snd (snd (conversation answering_sdk example_settings empty_request ''finance'')) =
           [model_args] \<and>
         map_of model_args ''messages'' =
           Some (JArr [JObj [(''role'', JStr ''system''),
                             (''content'', JStr ''You are an AI assistant.'')]]))"
proof -
  have 1: "is_json empty_request" and 2: "get_json empty_request = Inr (JObj [])"
    by (simp_all add: empty_request_def)
  have 3: "map_of ([] :: (string \<times> json) list) ''messages'' = None
        \<or> map_of ([] :: (string \<times> json) list) ''messages'' = Some (JArr [])"
    by simp
  have 4: "system_prompt example_settings ''finance'' = Some ''You are an AI assistant.''"
    by (simp add: system_prompt_def SYSTEM_PROMPTS_def example_settings_def)
  have 5: "''You are an AI assistant.'' \<noteq> []" by simp
  have 6: "init_openai_client answering_sdk example_settings = Inr ()"
    by (simp add: init_openai_client_def answering_sdk_def)
  from empty_messages_accepted [OF 1 2 3 4 5 6] 1 2 3 4 5 6 show ?thesis
    by blast
qed

section \<open>Failure of the model call\<close>

text \<open>
  C5. When the call made to the model raises, the response carries \<^verbatim>\<open>str\<close> of the exception
  in its error field, and its status is the exception's \<^verbatim>\<open>status_code\<close> when it has one
  (429 for an exception carrying 429) and 500 otherwise.
\<close>

theorem upstream_failure_status:
  assumes "snd (snd (conversation sdk s req context)) = [model_args]"
    and "init_openai_client sdk s = Inr client"
    and "create sdk client model_args = Inl ex"
  shows "fst (conversation sdk s req context) =
           Response (JObj [(''error'', JStr (exn_str ex))])
             (case status_code ex of Some code \<Rightarrow> code | None \<Rightarrow> 500)"
proof -
  from conversation_single_call [OF assms(1)] obtain d ms out where
    f: "filter_messages (system_entry (system_prompt s context) # ms) = Inr out" and
    a: "model_args = [(''messages'', JArr out),
          (''temperature'', temperature (azure_openai s)),
          (''max_tokens'', max_tokens (azure_openai s)),
          (''top_p'', top_p (azure_openai s)),
          (''stop'', stop_sequence (azure_openai s)),
          (''stream'', stream (azure_openai s)),
          (''model'', model (azure_openai s))]" and
    c: "conversation sdk s req context =
          (case conversation_internal sdk s
                 (JObj (AList.update ''messages''
                    (JArr (system_entry (system_prompt s context) # ms)) d)) (headers req) of
             (out, rb, cs) \<Rightarrow> (out, Some rb, cs))"
    by blast
  from assms(2,3) a show ?thesis
    unfolding c
    by (simp add: conversation_internal_def send_chat_request_main [OF f] Let_def
          error_response_def error_body_def split: option.splits)
qed

theorem upstream_failure_status_witness:
  "snd (snd (conversation throttled_sdk example_settings example_request ''it'')) = [example_args]
   \<and> init_openai_client throttled_sdk example_settings = Inr ()
   \<and> create throttled_sdk () example_args =
        Inl (Exn ''RateLimitError'' ''Too Many Requests'' (Some 429))
   \<and> fst (conversation throttled_sdk example_settings example_request ''it'') =
        Response (JObj [(''error'', JStr ''Too Many Requests'')]) 429"
proof -
  have 1: "snd (snd (conversation throttled_sdk example_settings example_request ''it'')) =
             [example_args]"
    by (simp add: example_defs handler_defs)
  have 2: "init_openai_client throttled_sdk example_settings = Inr ()"
    by (simp add: init_openai_client_def throttled_sdk_def)
  have 3: "create throttled_sdk () example_args =
             Inl (Exn ''RateLimitError'' ''Too Many Requests'' (Some 429))"
    by (simp add: throttled_sdk_def)
  from upstream_failure_status [OF 1 2 3] 1 2 3 show ?thesis
    by simp
qed

section \<open>History metadata in the reply\<close>

text \<open>
  C9. When the call to the model succeeds and the reply can be formatted, the response has
  status 200 and the reply's \<^verbatim>\<open>history_metadata\<close> is the request body's
  \<^verbatim>\<open>history_metadata\<close> entry, unchanged, or the empty object when the body has none: a request
  carrying \<^verbatim>\<open>{"foo": 1}\<close> gets \<^verbatim>\<open>{"foo": 1}\<close> back.
\<close>

theorem history_metadata_echoed:
  assumes "snd (snd (conversation sdk s req context)) = [model_args]"
    and "init_openai_client sdk s = Inr client"
    and "create sdk client model_args = Inr raw"
    and "parse raw = Inr response"
    and "first_choice_content response = Some content"
    and "get_json req = Inr (JObj d)"
  shows "\<exists>reply. fst (conversation sdk s req context) = Response reply 200 \<and>
           field reply ''history_metadata'' =
             Some (case map_of d ''history_metadata'' of Some v \<Rightarrow> v | None \<Rightarrow> JObj [])"
proof -
  from conversation_single_call [OF assms(1)] assms(6) obtain ms out where
    f: "filter_messages (system_entry (system_prompt s context) # ms) = Inr out" and
    a: "model_args = [(''messages'', JArr out),
          (''temperature'', temperature (azure_openai s)),
          (''max_tokens'', max_tokens (azure_openai s)),
          (''top_p'', top_p (azure_openai s)),
          (''stop'', stop_sequence (azure_openai s)),
          (''stream'', stream (azure_openai s)),
          (''model'', model (azure_openai s))]" and
    c: "conversation sdk s req context =
          (case conversation_internal sdk s
                 (JObj (AList.update ''messages''
                    (JArr (system_entry (system_prompt s context) # ms)) d)) (headers req) of
             (out, rb, cs) \<Rightarrow> (out, Some rb, cs))"
    by auto
  from assms(2-5) a show ?thesis
    unfolding c
    by (simp add: conversation_internal_def send_chat_request_main [OF f] Let_def
          format_non_streaming_response_def update_conv')
qed

theorem history_metadata_echoed_witness:
  "snd (snd (conversation answering_sdk example_settings example_request ''it'')) = [example_args]
   \<and> init_openai_client answering_sdk example_settings = Inr ()
   \<and> create answering_sdk () example_args =
        Inr \<lparr>parse = Inr example_completion, headers_get = (\<lambda>h. None)\<rparr>
   \<and> parse \<lparr>parse = Inr example_completion, headers_get = (\<lambda>h. None)\<rparr> = Inr example_completion
   \<and> first_choice_content example_completion = Some (JStr ''hi'')
   \<and> get_json example_request =
        Inr (JObj [(''messages'', JArr example_messages),
                   (''history_metadata'', JObj [(''foo'', JInt 1)])])
   \<and> (\<exists>reply. fst (conversation answering_sdk example_settings example_request ''it'') =
                 Response reply 200 \<and>
               field reply ''history_metadata'' = Some (JObj [(''foo'', JInt 1)]))"
proof -
  have 1: "snd (snd (conversation answering_sdk example_settings example_request ''it'')) =
             [example_args]"
    by (rule example_calls)
  have 2: "init_openai_client answering_sdk example_settings = Inr ()"
    by (simp add: init_openai_client_def answering_sdk_def)
  have 3: "create answering_sdk () example_args =
             Inr \<lparr>parse = Inr example_completion, headers_get = (\<lambda>h. None)\<rparr>"
    by (simp add: answering_sdk_def)
  have 4: "parse \<lparr>parse = Inr example_completion, headers_get = (\<lambda>h. None)\<rparr> =
             Inr example_completion"
    by simp
  have 5: "first_choice_content example_completion = Some (JStr ''hi'')"
    by (simp add: first_choice_content_def example_completion_def)
  have 6: "get_json example_request =
             Inr (JObj [(''messages'', JArr example_messages),
                        (''history_metadata'', JObj [(''foo'', JInt 1)])])"
    by (simp add: example_request_def example_body_def)
  from history_metadata_echoed [OF 1 2 3 4 5 6] 1 2 3 4 5 6 show ?thesis
    by simp
qed

section \<open>Errors of a request\<close>

text \<open>
  C4. Every error of a request should be turned into a JSON body with an \<^verbatim>\<open>error\<close> field and a
  status. The code does so only from \<^verbatim>\<open>conversation_internal\<close> on, where the \<^verbatim>\<open>try\<close> block is:
  for the JSON body \<^verbatim>\<open>{"messages": null}\<close> the call \<^verbatim>\<open>messages.insert\<close> of the handler raises
  \<^verbatim>\<open>AttributeError\<close>, and the exception leaves the handler with no response made. The same
  kind of error one call later is converted: for \<^verbatim>\<open>{"messages": ["hi"]}\<close> the call
  \<^verbatim>\<open>message.get\<close> raises \<^verbatim>\<open>AttributeError\<close> inside the \<^verbatim>\<open>try\<close> block and the response is the
  error body with status 500.
\<close>

theorem insert_error_escapes:
  "fst (conversation answering_sdk example_settings null_messages_request ''it'') =
     Raised (Exn ''AttributeError''
       ([CHR 0x27] @ ''NoneType'' @ [CHR 0x27] @ '' object has no attribute ''
          @ [CHR 0x27] @ ''insert'' @ [CHR 0x27]) None)
   \<and> fst (conversation answering_sdk example_settings string_message_request ''it'') =
     Response (JObj [(''error'',
       JStr ([CHR 0x27] @ ''str'' @ [CHR 0x27] @ '' object has no attribute ''
          @ [CHR 0x27] @ ''get'' @ [CHR 0x27]))]) 500"
  by (simp add: handler_defs null_messages_request_def string_message_request_def
        example_settings_def answering_sdk_def no_attribute_def)

section \<open>Failure at startup\<close>

text \<open>
  C7. If constructing the history store client fails, the startup hook raises the same
  exception again, the attribute \<^verbatim>\<open>cosmos_conversation_client\<close> is \<^verbatim>\<open>None\<close>, and the readiness
  event is left as it was, unset from the initial state; the startup is aborted instead of
  reaching the serving phase.
\<close>

theorem startup_failure:
  assumes "init_cosmosdb_client sdk s = Inl e"
  shows "init sdk s app = (Inl e, app\<lparr>cosmos_conversation_client := Some None\<rparr>)
         \<and> cosmos_db_ready (snd (init sdk s app)) = cosmos_db_ready app
         \<and> \<not> cosmos_db_ready (snd (init sdk s initial_state))
         \<and> cosmos_conversation_client (snd (init sdk s app)) = Some None
         \<and> fst (before_serving sdk s app) = Aborted e"
  using assms by (simp add: init_def before_serving_def initial_state_def)

theorem startup_failure_witness:
  "init_cosmosdb_client refusing_cosmos_sdk history_settings =
     Inl (Exn ''ValueError'' ''Invalid credentials'' None)
   \<and> init refusing_cosmos_sdk history_settings initial_state =
       (Inl (Exn ''ValueError'' ''Invalid credentials'' None),
        \<lparr>cosmos_conversation_client = Some None, cosmos_db_ready = False\<rparr>)
   \<and> fst (before_serving refusing_cosmos_sdk history_settings initial_state) =
       Aborted (Exn ''ValueError'' ''Invalid credentials'' None)"
proof -
  have 1: "init_cosmosdb_client refusing_cosmos_sdk history_settings =
             Inl (Exn ''ValueError'' ''Invalid credentials'' None)"
    by (simp add: init_cosmosdb_client_def refusing_cosmos_sdk_def history_settings_def
          example_settings_def)
  from startup_failure [OF 1, of initial_state] 1 show ?thesis
    by (simp add: initial_state_def)
qed

section \<open>What normalization writes\<close>

text \<open>
  C3. On the store, normalization (inserting the system entry, then filtering) leaves every
  object that existed before it unchanged, except the request's own parsed body and the
  list that was its messages entry; this holds also for runs that end with an exception.
  And in no object that existed before is any entry other than \<^verbatim>\<open>messages\<close> changed, so no
  message's \<^verbatim>\<open>content\<close> is altered. Nothing outside the request's body is written.
\<close>

theorem normalization_frame:
  assumes "a < next_addr h"
  shows "(a \<noteq> r \<and> messages_addr h r \<noteq> Some a
            \<longrightarrow> objs (snd (normalize_store p r h)) a = objs h a)
         \<and> (\<forall>k. k \<noteq> ''messages''
            \<longrightarrow> entry_of (snd (normalize_store p r h)) a k = entry_of h a k)"
proof -
  have n: "a < next_addr (snd (conversation_store p r h))"
    using assms conversation_store_next [of h p r] by simp
  show ?thesis
  proof (cases "fst (conversation_store p r h)")
    case (Some e)
    then show ?thesis
      using assms
      by (simp add: normalize_store_snd conversation_store_frame conversation_store_entry)
  next
    case None
    then show ?thesis
      using assms n
      by (simp add: normalize_store_snd conversation_store_frame conversation_store_entry
            send_chat_request_store_frame send_chat_request_store_entry)
  qed
qed

theorem normalization_frame_witness:
  "(3::nat) < next_addr example_store
   \<and> (3::nat) \<noteq> 1 \<and> messages_addr example_store 1 \<noteq> Some 3
   \<and> ''content'' \<noteq> ''messages''
   \<and> objs (snd (normalize_store ''Be brief.'' 1 example_store)) 3 =
       DictObj [(''role'', VStr ''user''), (''content'', VStr ''My printer is offline'')]
   \<and> entry_of (snd (normalize_store ''Be brief.'' 1 example_store)) 3 ''content'' =
       Some (VStr ''My printer is offline'')"
proof -
  have 1: "(3::nat) < next_addr example_store"
    by (simp add: example_store_def)
  have 2: "(3::nat) \<noteq> 1 \<and> messages_addr example_store 1 \<noteq> Some 3"
    by (simp add: example_store_def messages_addr_def)
  have 3: "objs example_store 3 =
             DictObj [(''role'', VStr ''user''), (''content'', VStr ''My printer is offline'')]"
    by (simp add: example_store_def)
  have 4: "entry_of example_store 3 ''content'' = Some (VStr ''My printer is offline'')"
    by (simp add: example_store_def entry_of_def)
  from normalization_frame [OF 1, of 1 "''Be brief.''"] 1 2 3 4 show ?thesis
    by simp
qed

end
